theory Spec2Isabelle
  imports Complex_Main
begin

section \<open>JavaScript numbers\<close>

text \<open>
  A JavaScript \<open>number\<close> is an IEEE 754 binary64 value. The model keeps the special
  values apart and identifies every other value with the rational it denotes:
  \<open>Fin 0\<close> is \<open>+0\<close>, \<open>NegZero\<close> is \<open>-0\<close>. Arithmetic computes the exact rational
  result and rounds it to the nearest binary64 value, ties to even, as the language
  prescribes.
\<close>

datatype number = NaN | PosInfinity | NegInfinity | NegZero | Fin rat

fun bits :: "nat \<Rightarrow> nat" where
  "bits n = (if n = 0 then 0 else Suc (bits (n div 2)))"

declare bits.simps [simp del]

definition pow2 :: "int \<Rightarrow> rat" where
  "pow2 e = (if 0 \<le> e then 2 ^ nat e else 1 / 2 ^ nat (- e))"

definition pow10 :: "int \<Rightarrow> rat" where
  "pow10 e = (if 0 \<le> e then 10 ^ nat e else 1 / 10 ^ nat (- e))"

text \<open>\<open>floor_log2 q\<close> is the \<open>e\<close> with \<open>2 ^ e \<le> q < 2 ^ (e + 1)\<close>, for \<open>q > 0\<close>.\<close>

definition floor_log2 :: "rat \<Rightarrow> int" where
  "floor_log2 q =
     (if 1 \<le> q then int (bits (nat \<lfloor>q\<rfloor>)) - 1
      else - int (bits (nat (\<lceil>1 / q\<rceil> - 1))))"

definition round_half_even :: "rat \<Rightarrow> int" where
  "round_half_even q =
     (let f = \<lfloor>q\<rfloor>; d = q - of_int f
      in if d < 1 / 2 then f
         else if 1 / 2 < d then f + 1
         else if even f then f else f + 1)"

text \<open>
  Rounding a positive rational to binary64: 53 significant bits, the exponent of the
  unit in the last place not below \<open>-1074\<close> (subnormal values), and \<open>None\<close> on overflow
  (a rounded magnitude of \<open>2 ^ 1024\<close> or more).
\<close>

definition round_mag :: "rat \<Rightarrow> rat option" where
  "round_mag q =
     (let e = max (floor_log2 q) (- 1022);
          u = pow2 (e - 52);
          r = of_int (round_half_even (q / u)) * u
      in if pow2 1024 \<le> r then None else Some r)"

definition zero_of :: "bool \<Rightarrow> number" where
  "zero_of neg = (if neg then NegZero else Fin 0)"

definition infinity_of :: "bool \<Rightarrow> number" where
  "infinity_of neg = (if neg then NegInfinity else PosInfinity)"

text \<open>
  The number value of a rational: the nearest binary64 value, an infinity beyond the
  range, a zero of the same sign below it.
\<close>

definition to_number :: "rat \<Rightarrow> number" where
  "to_number q =
     (if q = 0 then Fin 0
      else case round_mag \<bar>q\<bar> of
             None \<Rightarrow> infinity_of (q < 0)
           | Some r \<Rightarrow> if r = 0 then zero_of (q < 0) else Fin (if q < 0 then - r else r))"

fun negative :: "number \<Rightarrow> bool" where
  "negative NaN = False"
| "negative PosInfinity = False"
| "negative NegInfinity = True"
| "negative NegZero = True"
| "negative (Fin r) = (r < 0)"

fun is_zero :: "number \<Rightarrow> bool" where
  "is_zero NegZero = True"
| "is_zero (Fin r) = (r = 0)"
| "is_zero _ = False"

fun is_infinite :: "number \<Rightarrow> bool" where
  "is_infinite PosInfinity = True"
| "is_infinite NegInfinity = True"
| "is_infinite _ = False"

fun isFinite :: "number \<Rightarrow> bool" where
  "isFinite NegZero = True"
| "isFinite (Fin r) = True"
| "isFinite _ = False"

definition isNaN :: "number \<Rightarrow> bool" where
  "isNaN x = (x = NaN)"

fun math_value :: "number \<Rightarrow> rat" where
  "math_value (Fin r) = r"
| "math_value _ = 0"

text \<open>\<open>x * y\<close> (Number::multiply).\<close>

definition js_mul :: "number \<Rightarrow> number \<Rightarrow> number" where
  "js_mul x y =
     (if x = NaN \<or> y = NaN then NaN
      else if is_infinite x \<or> is_infinite y then
        (if is_zero x \<or> is_zero y then NaN else infinity_of (negative x \<noteq> negative y))
      else if is_zero x \<or> is_zero y then zero_of (negative x \<noteq> negative y)
      else to_number (math_value x * math_value y))"

text \<open>\<open>x / y\<close> (Number::divide).\<close>

definition js_div :: "number \<Rightarrow> number \<Rightarrow> number" where
  "js_div x y =
     (if x = NaN \<or> y = NaN then NaN
      else if is_infinite x then
        (if is_infinite y then NaN else infinity_of (negative x \<noteq> negative y))
      else if is_infinite y then zero_of (negative x \<noteq> negative y)
      else if is_zero x then
        (if is_zero y then NaN else zero_of (negative x \<noteq> negative y))
      else if is_zero y then infinity_of (negative x \<noteq> negative y)
      else to_number (math_value x / math_value y))"

text \<open>\<open>x > y\<close>: false as soon as one side is \<open>NaN\<close>; the two zeros are equal.\<close>

definition js_gt :: "number \<Rightarrow> number \<Rightarrow> bool" where
  "js_gt x y =
     (if x = NaN \<or> y = NaN then False
      else if x = PosInfinity then y \<noteq> PosInfinity
      else if y = NegInfinity then x \<noteq> NegInfinity
      else if x = NegInfinity \<or> y = PosInfinity then False
      else math_value y < math_value x)"


section \<open>Strings and numbers\<close>

text \<open>
  Strings are sequences of code units; the model has the code units up to \<open>U+00FF\<close>
  (the type \<open>char\<close>). The pattern \<open>\d\<close> is the ten ASCII digits.
\<close>

definition is_digit :: "char \<Rightarrow> bool" where
  "is_digit c = (c \<in> set ''0123456789'')"

definition digit_val :: "char \<Rightarrow> nat" where
  "digit_val c = of_char c - 48"

definition digits_val :: "string \<Rightarrow> nat" where
  "digits_val ds = foldl (\<lambda>n c. 10 * n + digit_val c) 0 ds"

text \<open>
  White space and line terminators stripped by \<open>parseFloat\<close>: TAB, LF, VT, FF, CR, SP
  and NBSP.
\<close>

definition is_space :: "char \<Rightarrow> bool" where
  "is_space c = (of_char c \<in> {9, 10, 11, 12, 13, 32, 160 :: nat})"

text \<open>
  The longest \<open>ExponentPart\<close> (\<open>e\<close> or \<open>E\<close>, an optional sign, at least one digit)
  at the start of the text gives the decimal exponent; there is none when the text
  does not start with a complete one.
\<close>

definition exponentPart :: "string \<Rightarrow> int" where
  "exponentPart s =
     (if s \<noteq> [] \<and> (hd s = CHR ''e'' \<or> hd s = CHR ''E'') then
        (let r = tl s in
         if r \<noteq> [] \<and> hd r = CHR ''-'' \<and> takeWhile is_digit (tl r) \<noteq> []
           then - int (digits_val (takeWhile is_digit (tl r)))
         else if r \<noteq> [] \<and> hd r = CHR ''+'' \<and> takeWhile is_digit (tl r) \<noteq> []
           then int (digits_val (takeWhile is_digit (tl r)))
         else int (digits_val (takeWhile is_digit r)))
      else 0)"

datatype literal = NoLiteral | InfinityLiteral | DecimalLiteral rat

text \<open>
  The longest prefix of the text that is a \<open>StrUnsignedDecimalLiteral\<close>, with its
  mathematical value:
  \<open>Infinity\<close>, or digits with an optional fraction and exponent, or a point followed
  by digits and an optional exponent.
\<close>

definition strUnsignedDecimalLiteral :: "string \<Rightarrow> literal" where
  "strUnsignedDecimalLiteral s =
     (if take 8 s = ''Infinity'' then InfinityLiteral
      else
        (let ip = takeWhile is_digit s; r1 = dropWhile is_digit s in
         if r1 \<noteq> [] \<and> hd r1 = CHR ''.'' then
           (let fp = takeWhile is_digit (tl r1); r2 = dropWhile is_digit (tl r1) in
            if ip = [] \<and> fp = [] then NoLiteral
            else DecimalLiteral
                   ((of_nat (digits_val ip) + of_nat (digits_val fp) / 10 ^ length fp)
                     * pow10 (exponentPart r2)))
         else if ip = [] then NoLiteral
         else DecimalLiteral (of_nat (digits_val ip) * pow10 (exponentPart r1))))"

definition js_neg :: "number \<Rightarrow> number" where
  "js_neg x =
     (case x of NaN \<Rightarrow> NaN | PosInfinity \<Rightarrow> NegInfinity | NegInfinity \<Rightarrow> PosInfinity
      | NegZero \<Rightarrow> Fin 0 | Fin r \<Rightarrow> if r = 0 then NegZero else Fin (- r))"

definition literal_value :: "literal \<Rightarrow> number" where
  "literal_value l =
     (case l of NoLiteral \<Rightarrow> NaN | InfinityLiteral \<Rightarrow> PosInfinity
      | DecimalLiteral q \<Rightarrow> to_number q)"

text \<open>
  \<open>parseFloat\<close>: strip leading white space, read the longest prefix that is a
  \<open>StrDecimalLiteral\<close> (an optional sign and an unsigned literal), \<open>NaN\<close> when there
  is none, and round its value to a number.
\<close>

definition parseFloat :: "string \<Rightarrow> number" where
  "parseFloat s =
     (let t = dropWhile is_space s in
      if t \<noteq> [] \<and> hd t = CHR ''-'' then js_neg (literal_value (strUnsignedDecimalLiteral (tl t)))
      else if t \<noteq> [] \<and> hd t = CHR ''+'' then literal_value (strUnsignedDecimalLiteral (tl t))
      else literal_value (strUnsignedDecimalLiteral t))"

subsection \<open>Formatting\<close>

fun digits_of :: "nat \<Rightarrow> string" where
  "digits_of n = (if n = 0 then [] else digits_of (n div 10) @ [''0123456789'' ! (n mod 10)])"

declare digits_of.simps [simp del]

definition decimal :: "nat \<Rightarrow> string" where
  "decimal n = (if n = 0 then ''0'' else digits_of n)"

text \<open>\<open>floor_log10 q\<close> is the \<open>e\<close> with \<open>10 ^ e \<le> q < 10 ^ (e + 1)\<close>, for \<open>q > 0\<close>.\<close>

definition floor_log10 :: "rat \<Rightarrow> int" where
  "floor_log10 q =
     (if 1 \<le> q then int (length (digits_of (nat \<lfloor>q\<rfloor>))) - 1
      else - int (length (digits_of (nat (\<lceil>1 / q\<rceil> - 1)))))"

text \<open>
  Number::toString, radix 10. For a positive finite \<open>x\<close> it takes the integers \<open>n\<close>,
  \<open>k\<close>, \<open>s\<close> with \<open>10 ^ (k - 1) \<le> s < 10 ^ k\<close> whose value \<open>s * 10 ^ (n - k)\<close>
  rounds to \<open>x\<close>, \<open>k\<close> as small as possible and the value as close to \<open>x\<close> as
  possible. For a given \<open>k\<close> the only candidates are the two \<open>k\<close>-digit neighbours
  of \<open>x\<close>; seventeen digits always suffice for a binary64 value.
\<close>

definition digits_candidate :: "rat \<Rightarrow> int \<Rightarrow> nat \<Rightarrow> nat option" where
  "digits_candidate x n k =
     (let u = pow10 (n - int k);
          lo = nat \<lfloor>x / u\<rfloor>;
          hi = lo + 1;
          ok_lo = (to_number (of_nat lo * u) = Fin x);
          ok_hi = (to_number (of_nat hi * u) = Fin x)
      in if ok_lo \<and> ok_hi then
           (if x - of_nat lo * u < of_nat hi * u - x then Some lo
            else if of_nat hi * u - x < x - of_nat lo * u then Some hi
            else if even lo then Some lo else Some hi)
         else if ok_lo then Some lo
         else if ok_hi then Some hi
         else None)"

fun shortest_digits :: "rat \<Rightarrow> int \<Rightarrow> nat \<Rightarrow> nat \<Rightarrow> (nat \<times> nat) option" where
  "shortest_digits x n k 0 = None"
| "shortest_digits x n k (Suc fuel) =
     (case digits_candidate x n k of
        Some s \<Rightarrow> Some (s, k)
      | None \<Rightarrow> shortest_digits x n (Suc k) fuel)"

definition exponent_suffix :: "int \<Rightarrow> string" where
  "exponent_suffix e = ''e'' @ (if e < 0 then ''-'' else ''+'') @ decimal (nat \<bar>e\<bar>)"

definition positiveToString :: "rat \<Rightarrow> string" where
  "positiveToString x =
     (let n0 = floor_log10 x + 1 in
      case shortest_digits x n0 1 17 of
        None \<Rightarrow> []
      | Some (s0, k) \<Rightarrow>
          (let s = (if s0 = 10 ^ k then 10 ^ (k - 1) else s0);
               n = (if s0 = 10 ^ k then n0 + 1 else n0);
               ds = decimal s
           in if int k \<le> n \<and> n \<le> 21 then ds @ replicate (nat (n - int k)) CHR ''0''
              else if 0 < n \<and> n \<le> 21 then take (nat n) ds @ ''.'' @ drop (nat n) ds
              else if - 6 < n \<and> n \<le> 0 then ''0.'' @ replicate (nat (- n)) CHR ''0'' @ ds
              else if k = 1 then ds @ exponent_suffix (n - 1)
              else take 1 ds @ ''.'' @ drop 1 ds @ exponent_suffix (n - 1)))"

definition numberToString :: "number \<Rightarrow> string" where
  "numberToString x =
     (case x of
        NaN \<Rightarrow> ''NaN''
      | PosInfinity \<Rightarrow> ''Infinity''
      | NegInfinity \<Rightarrow> ''-Infinity''
      | NegZero \<Rightarrow> ''0''
      | Fin r \<Rightarrow> if r = 0 then ''0''
                else if r < 0 then ''-'' @ positiveToString (- r)
                else positiveToString r)"

text \<open>
  \<open>x.toFixed(f)\<close> for \<open>f\<close> from 0 to 100: a value that is not finite, or of magnitude
  \<open>10 ^ 21\<close> or more, is printed by Number::toString; any other is rounded to \<open>f\<close>
  fraction digits, the larger integer on a tie.
\<close>

definition toFixed :: "number \<Rightarrow> nat \<Rightarrow> string" where
  "toFixed x f =
     (if \<not> isFinite x then numberToString x
      else
        (let a = \<bar>math_value x\<bar> in
         (if math_value x < 0 then ''-'' else []) @
         (if 10 ^ 21 \<le> a then numberToString (Fin a)
          else
            (let m = decimal (nat \<lfloor>a * 10 ^ f + 1 / 2\<rfloor>) in
             if f \<noteq> 0 then
               (let z = (if length m \<le> f then replicate (f + 1 - length m) CHR ''0'' @ m else m)
                in take (length z - f) z @ ''.'' @ drop (length z - f) z)
             else m))))"

section \<open>The price feed\<close>

record CurrencyPrice =
  currency :: string
  price :: number
  date :: string

text \<open>
  \<open>new Date(text)\<close> is the platform's, and what it accepts beyond the standard date
  format depends on the implementation. The model takes its time value (milliseconds
  since the epoch) as a parameter \<open>timeOf\<close>: \<open>None\<close> stands for an Invalid Date, whose
  time value is \<open>NaN\<close>. Two dates compare by their time values, and a comparison with
  an Invalid Date is false.
\<close>

type_synonym date_parser = "string \<Rightarrow> int option"

definition date_gt :: "int option \<Rightarrow> int option \<Rightarrow> bool" where
  "date_gt a b = (case a of None \<Rightarrow> False | Some x \<Rightarrow> (case b of None \<Rightarrow> False | Some y \<Rightarrow> y < x))"

text \<open>
  A \<open>Map\<close> keeps its keys in insertion order; \<open>set\<close> on a key already present
  replaces the value in place, on a new key appends the entry.
\<close>

fun map_set :: "'k \<Rightarrow> 'v \<Rightarrow> ('k \<times> 'v) list \<Rightarrow> ('k \<times> 'v) list" where
  "map_set k v [] = [(k, v)]"
| "map_set k v (p # ps) = (if fst p = k then (k, v) # ps else p # map_set k v ps)"

definition map_get :: "('k \<times> 'v) list \<Rightarrow> 'k \<Rightarrow> 'v option" where
  "map_get m k = map_of m k"

text \<open>The body of the \<open>forEach\<close> in \<open>getLatestTokenPrices\<close>.\<close>

definition latest_step ::
  "date_parser \<Rightarrow> (string \<times> number \<times> string) list \<Rightarrow> CurrencyPrice
     \<Rightarrow> (string \<times> number \<times> string) list" where
  "latest_step timeOf latestPrices item =
     (let existing = map_get latestPrices (currency item);
          newItemDate = timeOf (date item)
      in case existing of
           None \<Rightarrow> map_set (currency item) (price item, date item) latestPrices
         | Some e \<Rightarrow>
             if date_gt newItemDate (timeOf (snd e))
             then map_set (currency item) (price item, date item) latestPrices
             else latestPrices)"

definition entry_of :: "string \<times> number \<times> string \<Rightarrow> CurrencyPrice" where
  "entry_of kv = \<lparr>currency = fst kv, price = fst (snd kv), date = snd (snd kv)\<rparr>"

definition getLatestTokenPrices :: "date_parser \<Rightarrow> CurrencyPrice list \<Rightarrow> CurrencyPrice list" where
  "getLatestTokenPrices timeOf data = map entry_of (foldl (latest_step timeOf) [] data)"

section \<open>The application state\<close>

record AppState =
  availableCurrencies :: "CurrencyPrice list"
  loading :: bool
  fetchError :: "string option"
  fromCurrency :: string
  toCurrency :: string
  fromAmount :: string
  toAmount :: string
  exchangeRate :: "number option"
  error :: string
  swapSuccess :: bool
  showFromDropdown :: bool
  showToDropdown :: bool

definition initialState :: AppState where
  "initialState =
     \<lparr>availableCurrencies = [], loading = True, fetchError = None,
      fromCurrency = [], toCurrency = [], fromAmount = ''1.0'', toAmount = [],
      exchangeRate = None, error = [], swapSuccess = False,
      showFromDropdown = False, showToDropdown = False\<rparr>"

text \<open>The memoized lookup table: a later entry of the list overwrites an earlier one.\<close>

definition currencyPrices :: "CurrencyPrice list \<Rightarrow> (string \<rightharpoonup> number)" where
  "currencyPrices cs = foldl (\<lambda>prices c. prices(currency c \<mapsto> price c)) Map.empty cs"

text \<open>
  The effect that calculates the exchange rate and \<open>toAmount\<close>; it runs after every
  change of the currencies, the amount, the prices or \<open>loading\<close>. A string is truthy
  when it is not empty.
\<close>

definition recompute :: "AppState \<Rightarrow> AppState" where
  "recompute s =
     (let s1 = s\<lparr>error := [], swapSuccess := False\<rparr>;
          fromPrice = currencyPrices (availableCurrencies s) (fromCurrency s);
          toPrice = currencyPrices (availableCurrencies s) (toCurrency s)
      in if fromPrice = None \<or> toPrice = None then
           (let s2 = s1\<lparr>exchangeRate := None, toAmount := []\<rparr>
            in if fromCurrency s \<noteq> [] \<and> toCurrency s \<noteq> [] \<and> \<not> loading s
               then s2\<lparr>error := ''Exchange rate not available for selected currencies.''\<rparr>
               else s2)
         else
           (let rate = js_div (the toPrice) (the fromPrice);
                s2 = s1\<lparr>exchangeRate := Some rate\<rparr>;
                amount = parseFloat (fromAmount s)
            in if \<not> isNaN amount \<and> js_gt amount (Fin 0)
               then s2\<lparr>toAmount := toFixed (js_mul amount rate) 6\<rparr>
               else s2\<lparr>toAmount := [], error := ''Please enter a valid amount to send.''\<rparr>))"

text \<open>
  The pattern \<open>/^\d*\.?\d*$/\<close>: digits, then at most one point, then digits, up to
  the end of the text.
\<close>

definition amount_pattern_test :: "string \<Rightarrow> bool" where
  "amount_pattern_test v =
     (let r1 = dropWhile is_digit v;
          r2 = (if r1 \<noteq> [] \<and> hd r1 = CHR ''.'' then tl r1 else r1)
      in dropWhile is_digit r2 = [])"

definition handleFromAmountChange :: "string \<Rightarrow> AppState \<Rightarrow> AppState" where
  "handleFromAmountChange v s =
     (if amount_pattern_test v \<or> v = [] then s\<lparr>fromAmount := v\<rparr> else s)"

text \<open>Both setters receive the values of the current render.\<close>

definition handleCurrencySwap :: "AppState \<Rightarrow> AppState" where
  "handleCurrencySwap s = s\<lparr>fromCurrency := toCurrency s, toCurrency := fromCurrency s\<rparr>"

text \<open>The end of \<open>fetchData\<close>, with the parsed response or with the message of the error caught.\<close>

definition fetchSucceeded :: "date_parser \<Rightarrow> CurrencyPrice list \<Rightarrow> AppState \<Rightarrow> AppState" where
  "fetchSucceeded timeOf data s =
     (let processedCurrencies = getLatestTokenPrices timeOf data;
          s1 = s\<lparr>availableCurrencies := processedCurrencies\<rparr>;
          s2 = (case processedCurrencies of
                  [] \<Rightarrow> s1
                | c0 # rest \<Rightarrow>
                    (case rest of
                       [] \<Rightarrow> s1\<lparr>fromCurrency := currency c0, toCurrency := currency c0\<rparr>
                     | c1 # _ \<Rightarrow> s1\<lparr>fromCurrency := currency c0, toCurrency := currency c1\<rparr>))
      in s2\<lparr>loading := False\<rparr>)"

definition fetchFailed :: "string \<Rightarrow> AppState \<Rightarrow> AppState" where
  "fetchFailed errorMessage s =
     s\<lparr>fetchError := Some (''Failed to fetch currency data: '' @ errorMessage), loading := False\<rparr>"

text \<open>
  The events of the component: the end of the fetch, a choice in one of the two
  selectors (which also closes its dropdown), an edit of the amount, the swap button,
  and the opening or closing of a dropdown. The effect \<open>recompute\<close> follows each of
  them; it also runs once when the component is mounted.
\<close>

datatype event =
    FetchSucceeded "CurrencyPrice list"
  | FetchFailed string
  | SelectFrom string
  | SelectTo string
  | AmountChange string
  | Swap
  | SetShowFrom bool
  | SetShowTo bool

fun handle :: "date_parser \<Rightarrow> event \<Rightarrow> AppState \<Rightarrow> AppState" where
  "handle timeOf (FetchSucceeded data) s = fetchSucceeded timeOf data s"
| "handle timeOf (FetchFailed m) s = fetchFailed m s"
| "handle timeOf (SelectFrom c) s = s\<lparr>fromCurrency := c, showFromDropdown := False\<rparr>"
| "handle timeOf (SelectTo c) s = s\<lparr>toCurrency := c, showToDropdown := False\<rparr>"
| "handle timeOf (AmountChange v) s = handleFromAmountChange v s"
| "handle timeOf Swap s = handleCurrencySwap s"
| "handle timeOf (SetShowFrom b) s = s\<lparr>showFromDropdown := b\<rparr>"
| "handle timeOf (SetShowTo b) s = s\<lparr>showToDropdown := b\<rparr>"

definition step :: "date_parser \<Rightarrow> event \<Rightarrow> AppState \<Rightarrow> AppState" where
  "step timeOf e s = recompute (handle timeOf e s)"

inductive reachable :: "date_parser \<Rightarrow> AppState \<Rightarrow> bool" for timeOf :: date_parser where
  reachable_init: "reachable timeOf (recompute initialState)"
| reachable_step: "reachable timeOf s \<Longrightarrow> reachable timeOf (step timeOf e s)"

section \<open>The properties\<close>

text \<open>
  The grammar of an amount as the specification words it: digits with at most one
  decimal point, the empty text included.
\<close>

definition amount_grammar :: "string \<Rightarrow> bool" where
  "amount_grammar v =
     (list_all (\<lambda>c. is_digit c \<or> c = CHR ''.'') v \<and> length (filter (\<lambda>c. c = CHR ''.'') v) \<le> 1)"

text \<open>
  The time values of the two dates of the examples, midnight UTC of 1 and of 2 January
  2024; every other text is left an Invalid Date.
\<close>

definition exampleDates :: date_parser where
  "exampleDates d =
     (if d = ''2024-01-01'' then Some 1704067200000
      else if d = ''2024-01-02'' then Some 1704153600000
      else None)"

text \<open>The elements of a list in the order of their first occurrence.\<close>

fun first_occurrences :: "'a list \<Rightarrow> 'a list" where
  "first_occurrences [] = []"
| "first_occurrences (x # xs) = x # filter (\<lambda>y. y \<noteq> x) (first_occurrences xs)"

text \<open>
  \<open>first_latest tv xs i\<close>: among the observations of its currency in \<open>xs\<close>, the one at
  index \<open>i\<close> has the greatest time \<open>tv\<close>, and it is the first that has it.
\<close>

definition first_latest :: "(CurrencyPrice \<Rightarrow> int) \<Rightarrow> CurrencyPrice list \<Rightarrow> nat \<Rightarrow> bool" where
  "first_latest tv xs i \<longleftrightarrow>
     i < length xs
     \<and> (\<forall>j<length xs. currency (xs ! j) = currency (xs ! i) \<longrightarrow> tv (xs ! j) \<le> tv (xs ! i))
     \<and> (\<forall>j<i. currency (xs ! j) = currency (xs ! i) \<longrightarrow> tv (xs ! j) < tv (xs ! i))"

text \<open>The feed of the end-to-end example.\<close>

definition exampleFeed :: "CurrencyPrice list" where
  "exampleFeed =
     [\<lparr>currency = ''BTC'', price = Fin 50000, date = ''2024-01-01''\<rparr>,
      \<lparr>currency = ''BTC'', price = Fin 51000, date = ''2024-01-02''\<rparr>,
      \<lparr>currency = ''ETH'', price = Fin 3000, date = ''2024-01-01''\<rparr>]"

definition exampleTime :: "CurrencyPrice \<Rightarrow> int" where
  "exampleTime x = (if date x = ''2024-01-02'' then 1704153600000 else 1704067200000)"

text \<open>
  The state of the end-to-end example: the feed has arrived, which selects \<open>BTC\<close> and
  \<open>ETH\<close>, and the amount has been edited to \<open>2\<close>.
\<close>

definition exampleState :: AppState where
  "exampleState =
     step exampleDates (AmountChange ''2'')
       (step exampleDates (FetchSucceeded exampleFeed) (recompute initialState))"

text \<open>A feed whose first currency has the price zero.\<close>

definition zeroPriceFeed :: "CurrencyPrice list" where
  "zeroPriceFeed =
     [\<lparr>currency = ''X'', price = Fin 0, date = ''2024-01-01''\<rparr>,
      \<lparr>currency = ''Y'', price = Fin 3000, date = ''2024-01-01''\<rparr>]"

definition zeroPriceState :: AppState where
  "zeroPriceState = step exampleDates (FetchSucceeded zeroPriceFeed) (recompute initialState)"



section \<open>Amount input\<close>

lemma point_not_digit: "\<not> is_digit CHR ''.''"
  by (simp add: is_digit_def)

lemma digits_iff_grammar_without_point:
  "list_all is_digit r \<longleftrightarrow>
     list_all (\<lambda>c. is_digit c \<or> c = CHR ''.'') r \<and> filter (\<lambda>c. c = CHR ''.'') r = []"
  by (induction r) (auto simp: point_not_digit)

lemma amount_grammar_append_digits:
  "list_all is_digit a \<Longrightarrow> amount_grammar (a @ r) = amount_grammar r"
  by (induction a) (auto simp: amount_grammar_def point_not_digit)

lemma amount_pattern_test_rest:
  assumes "r = [] \<or> \<not> is_digit (hd r)"
  shows "(let r2 = (if r \<noteq> [] \<and> hd r = CHR ''.'' then tl r else r) in dropWhile is_digit r2 = [])
           = amount_grammar r"
proof (cases r)
  case Nil
  then show ?thesis by (simp add: amount_grammar_def)
next
  case (Cons c t)
  with assms have nd: "\<not> is_digit c" by simp
  show ?thesis
  proof (cases "c = CHR ''.''")
    case True
    have "amount_grammar (c # t) = list_all is_digit t"
      using True digits_iff_grammar_without_point [of t]
      by (auto simp: amount_grammar_def)
    then show ?thesis using Cons True by (simp add: dropWhile_eq_Nil_conv list_all_iff)
  next
    case False
    then show ?thesis using Cons nd by (simp add: amount_grammar_def)
  qed
qed

lemma amount_pattern_test_iff_grammar: "amount_pattern_test v = amount_grammar v"
proof -
  let ?a = "takeWhile is_digit v" and ?r = "dropWhile is_digit v"
  have r: "?r = [] \<or> \<not> is_digit (hd ?r)"
    using hd_dropWhile [of is_digit v] by blast
  have a: "list_all is_digit ?a"
    by (simp add: list_all_iff) (meson set_takeWhileD)
  have "amount_pattern_test v = amount_grammar ?r"
    unfolding amount_pattern_test_def using amount_pattern_test_rest [OF r] by (simp add: Let_def)
  also have "\<dots> = amount_grammar (?a @ ?r)"
    by (rule amount_grammar_append_digits [OF a, symmetric])
  finally show ?thesis by simp
qed

lemma amount_pattern_test_language:
  assumes t: "amount_pattern_test v"
  shows "\<exists>a p b. v = a @ p @ b \<and> list_all is_digit a \<and> (p = [] \<or> p = ''.'') \<and> list_all is_digit b"
proof -
  let ?a = "takeWhile is_digit v" and ?r = "dropWhile is_digit v"
  have a: "list_all is_digit ?a"
    by (simp add: list_all_iff) (meson set_takeWhileD)
  show ?thesis
  proof (cases "?r \<noteq> [] \<and> hd ?r = CHR ''.''")
    case True
    then have b: "list_all is_digit (tl ?r)"
      using t by (simp add: amount_pattern_test_def Let_def dropWhile_eq_Nil_conv list_all_iff)
    from True obtain w where r: "?r = CHR ''.'' # w"
      by (cases ?r) simp_all
    have "?a @ ''.'' @ w = ?a @ ?r"
      by (simp only: r append_Cons append_Nil)
    also have "\<dots> = v"
      by (rule takeWhile_dropWhile_id)
    finally have "?a @ ''.'' @ w = v" .
    then have "v = ?a @ ''.'' @ w"
      by (rule sym)
    moreover have "list_all is_digit w"
      using b r by simp
    ultimately have "v = ?a @ ''.'' @ w \<and> list_all is_digit ?a \<and> (''.'' = [] \<or> ''.'' = ''.'')
        \<and> list_all is_digit w"
      using a by (intro conjI disjI2 refl) simp_all
    then show ?thesis by blast
  next
    case False
    then have "(if ?r \<noteq> [] \<and> hd ?r = CHR ''.'' then tl ?r else ?r) = ?r"
      by (rule if_not_P)
    with t have "dropWhile is_digit ?r = []"
      by (simp only: amount_pattern_test_def Let_def)
    then have r: "?r = []"
      by (simp only: dropWhile_idem)
    have "?a @ [] @ [] = ?a @ ?r"
      by (simp only: r append_Nil)
    also have "\<dots> = v"
      by (rule takeWhile_dropWhile_id)
    finally have "?a @ [] @ [] = v" .
    then have "v = ?a @ [] @ []"
      by (rule sym)
    with a have "v = ?a @ [] @ [] \<and> list_all is_digit ?a \<and> ([] = [] \<or> [] = ''.'')
        \<and> list_all is_digit []"
      by (intro conjI disjI1 refl) simp_all
    then show ?thesis by blast
  qed
qed

lemma language_amount_pattern_test:
  assumes v: "v = a @ p @ b" and a: "list_all is_digit a"
    and p: "p = [] \<or> p = ''.''" and b: "list_all is_digit b"
  shows "amount_pattern_test v"
proof -
  have "amount_grammar (p @ b)"
    using p b digits_iff_grammar_without_point [of b] by (auto simp: amount_grammar_def)
  then have "amount_grammar (a @ p @ b)"
    using amount_grammar_append_digits [OF a] by simp
  then show "amount_pattern_test v"
    by (simp add: v amount_pattern_test_iff_grammar)
qed

text \<open>
  The scan accepts exactly the language of the pattern: digits, an optional point,
  digits.
\<close>

lemma amount_pattern_test_iff_language:
  "amount_pattern_test v \<longleftrightarrow>
     (\<exists>a p b. v = a @ p @ b \<and> list_all is_digit a \<and> (p = [] \<or> p = ''.'')
        \<and> list_all is_digit b)"
  using amount_pattern_test_language [of v] language_amount_pattern_test [of v] by blast

text \<open>
  C7. \<open>handleFromAmountChange\<close> adopts the candidate text exactly when it is in the
  grammar \<open>^\d*\.?\d*$\<close> (digits with at most one decimal point, the empty text
  included) and keeps the current text otherwise. It rejects \<open>1.2.3\<close>, \<open>abc\<close> and
  \<open>-5\<close>, and accepts the empty text, \<open>0\<close>, \<open>12.5\<close> and the single point.
\<close>

theorem handleFromAmountChange_adopts_iff_grammar:
  "handleFromAmountChange v s = (if amount_grammar v then s\<lparr>fromAmount := v\<rparr> else s)
   \<and> handleFromAmountChange ''1.2.3'' s = s
   \<and> handleFromAmountChange ''abc'' s = s
   \<and> handleFromAmountChange ''-5'' s = s
   \<and> handleFromAmountChange [] s = s\<lparr>fromAmount := []\<rparr>
   \<and> handleFromAmountChange ''0'' s = s\<lparr>fromAmount := ''0''\<rparr>
   \<and> handleFromAmountChange ''12.5'' s = s\<lparr>fromAmount := ''12.5''\<rparr>
   \<and> handleFromAmountChange ''.'' s = s\<lparr>fromAmount := ''.''\<rparr>"
  by (simp add: handleFromAmountChange_def amount_pattern_test_iff_grammar amount_grammar_def
        is_digit_def)

theorem handleFromAmountChange_adopts_witness:
  "amount_grammar ''12.5''
   \<and> fromAmount (handleFromAmountChange ''12.5'' initialState) = ''12.5''
   \<and> \<not> amount_grammar ''1.2.3''
   \<and> fromAmount (handleFromAmountChange ''1.2.3'' initialState) = ''1.0''"
  using handleFromAmountChange_adopts_iff_grammar [of "''12.5''" initialState]
  by (simp add: amount_grammar_def is_digit_def initialState_def)

section \<open>The state of the conversion\<close>

lemma recompute_keeps:
  "fromCurrency (recompute s) = fromCurrency s"
  "toCurrency (recompute s) = toCurrency s"
  "fromAmount (recompute s) = fromAmount s"
  "availableCurrencies (recompute s) = availableCurrencies s"
  "loading (recompute s) = loading s"
  by (simp_all add: recompute_def Let_def split: option.splits)

lemma fetchSucceeded_fromAmount: "fromAmount (fetchSucceeded timeOf data s) = fromAmount s"
  by (simp add: fetchSucceeded_def Let_def split: list.splits)

lemma handle_fromAmount:
  "amount_grammar (fromAmount s) \<Longrightarrow> amount_grammar (fromAmount (handle timeOf e s))"
  by (cases e)
     (simp_all add: fetchSucceeded_fromAmount fetchFailed_def handleCurrencySwap_def
        handleFromAmountChange_def amount_pattern_test_iff_grammar amount_grammar_def)

text \<open>
  C9. In every reachable state \<open>fromAmount\<close> is in the grammar \<open>^\d*\.?\d*$\<close>: the
  initial text \<open>1.0\<close> is, and no event replaces it with a text outside the grammar.
\<close>

theorem reachable_fromAmount_in_grammar:
  "reachable timeOf s \<Longrightarrow> amount_grammar (fromAmount s) \<and> amount_pattern_test (fromAmount s)"
proof (induction rule: reachable.induct)
  case reachable_init
  show ?case
    by (simp add: recompute_keeps amount_pattern_test_iff_grammar initialState_def
          amount_grammar_def is_digit_def)
next
  case (reachable_step s e)
  then show ?case
    by (simp add: step_def recompute_keeps handle_fromAmount amount_pattern_test_iff_grammar)
qed

theorem reachable_fromAmount_witness:
  "reachable exampleDates (step exampleDates (AmountChange ''12.5'') (recompute initialState))
   \<and> amount_grammar
        (fromAmount (step exampleDates (AmountChange ''12.5'') (recompute initialState)))
   \<and> fromAmount (step exampleDates (AmountChange ''12.5'') (recompute initialState)) = ''12.5''"
proof -
  have r: "reachable exampleDates
             (step exampleDates (AmountChange ''12.5'') (recompute initialState))"
    by (intro reachable_step reachable_init)
  have "fromAmount (step exampleDates (AmountChange ''12.5'') (recompute initialState)) = ''12.5''"
    by (simp add: step_def recompute_keeps handleFromAmountChange_def amount_pattern_test_iff_grammar
          amount_grammar_def is_digit_def)
  with r reachable_fromAmount_in_grammar [OF r] show ?thesis by simp
qed

text \<open>
  C8. Two swaps in a row restore the pair of currencies, and after one swap the two
  currencies are equal only if they were equal before: the handler exchanges them in one
  update of the state.
\<close>

theorem handleCurrencySwap_involution:
  "fromCurrency (step timeOf Swap (step timeOf Swap s)) = fromCurrency s
   \<and> toCurrency (step timeOf Swap (step timeOf Swap s)) = toCurrency s
   \<and> fromCurrency (handleCurrencySwap s) = toCurrency s
   \<and> toCurrency (handleCurrencySwap s) = fromCurrency s
   \<and> (fromCurrency (step timeOf Swap s) = toCurrency (step timeOf Swap s)
        \<longrightarrow> fromCurrency s = toCurrency s)"
  by (simp add: step_def recompute_keeps handleCurrencySwap_def)

theorem handleCurrencySwap_witness:
  "fromCurrency (step exampleDates Swap (step exampleDates Swap
       (initialState\<lparr>fromCurrency := ''BTC'', toCurrency := ''ETH''\<rparr>))) = ''BTC''
   \<and> toCurrency (step exampleDates Swap (step exampleDates Swap
       (initialState\<lparr>fromCurrency := ''BTC'', toCurrency := ''ETH''\<rparr>))) = ''ETH''
   \<and> fromCurrency (step exampleDates Swap
       (initialState\<lparr>fromCurrency := ''ETH'', toCurrency := ''ETH''\<rparr>))
      = toCurrency (step exampleDates Swap
       (initialState\<lparr>fromCurrency := ''ETH'', toCurrency := ''ETH''\<rparr>))"
  using handleCurrencySwap_involution
          [of exampleDates "initialState\<lparr>fromCurrency := ''BTC'', toCurrency := ''ETH''\<rparr>"]
        handleCurrencySwap_involution
          [of exampleDates "initialState\<lparr>fromCurrency := ''ETH'', toCurrency := ''ETH''\<rparr>"]
  by (simp add: step_def recompute_keeps handleCurrencySwap_def)

section \<open>The latest price of every currency\<close>

lemma map_fst_map_set:
  "map fst (map_set k v m) = (if k \<in> set (map fst m) then map fst m else map fst m @ [k])"
  by (induction m) auto

lemma map_of_map_set: "map_of (map_set k v m) = (map_of m)(k \<mapsto> v)"
  by (induction m) auto

lemma set_map_set: "set (map_set k v m) \<subseteq> insert (k, v) (set m)"
  by (induction m) auto

lemma map_get_None_iff: "map_get m k = None \<longleftrightarrow> k \<notin> set (map fst m)"
  by (simp add: map_get_def map_of_eq_None_iff)

lemma keys_latest_step:
  "map fst (latest_step timeOf m x) =
     (if currency x \<in> set (map fst m) then map fst m else map fst m @ [currency x])"
proof (cases "map_get m (currency x)")
  case None
  then show ?thesis
    using map_get_None_iff [of m "currency x"]
    by (simp add: latest_step_def Let_def map_fst_map_set)
next
  case (Some e)
  then have "currency x \<in> set (map fst m)"
    using map_get_None_iff [of m "currency x"] by simp
  with Some show ?thesis
    by (simp add: latest_step_def Let_def map_fst_map_set)
qed

lemma keys_foldl_latest_step:
  "map fst (foldl (latest_step timeOf) m xs) =
     map fst m @ filter (\<lambda>k. k \<notin> set (map fst m)) (first_occurrences (map currency xs))"
proof (induction xs arbitrary: m)
  case Nil
  show ?case by simp
next
  case (Cons x xs)
  show ?case
  proof (cases "currency x \<in> set (map fst m)")
    case True
    have "filter (\<lambda>k. k \<notin> set (map fst m)) (filter (\<lambda>y. y \<noteq> currency x) ys)
            = filter (\<lambda>k. k \<notin> set (map fst m)) ys" for ys
      using True by (induction ys) auto
    with True show ?thesis
      by (simp add: Cons.IH keys_latest_step)
  next
    case False
    have "filter (\<lambda>k. k \<notin> set (map fst m)) (filter (\<lambda>y. y \<noteq> currency x) ys)
            = filter (\<lambda>k. k \<noteq> currency x \<and> k \<notin> set (map fst m)) ys" for ys
      by (induction ys) auto
    with False show ?thesis
      by (simp add: Cons.IH keys_latest_step)
  qed
qed

lemma distinct_first_occurrences: "distinct (first_occurrences xs)"
  by (induction xs) auto

lemma set_first_occurrences: "set (first_occurrences xs) = set xs"
  by (induction xs) auto

lemma currency_entry_of: "map currency (map entry_of m) = map fst m"
  by (simp add: entry_of_def comp_def)

lemma getLatestTokenPrices_currencies:
  "map currency (getLatestTokenPrices timeOf data) = first_occurrences (map currency data)"
  by (simp only: getLatestTokenPrices_def currency_entry_of keys_foldl_latest_step) simp

lemma set_latest_step:
  "set (latest_step timeOf m x) \<subseteq> insert (currency x, price x, date x) (set m)"
  using set_map_set [of "currency x" "(price x, date x)" m]
  by (auto simp: latest_step_def Let_def split: option.splits)

lemma foldl_latest_step_verbatim:
  "entry_of ` set m \<subseteq> A \<Longrightarrow> set xs \<subseteq> A \<Longrightarrow> entry_of ` set (foldl (latest_step timeOf) m xs) \<subseteq> A"
proof (induction xs arbitrary: m)
  case Nil
  then show ?case by simp
next
  case (Cons x xs)
  have "entry_of (currency x, price x, date x) = x"
    by (simp add: entry_of_def)
  then have "entry_of ` set (latest_step timeOf m x) \<subseteq> A"
    using set_latest_step [of timeOf m x] Cons.prems by force
  then show ?case using Cons by simp
qed

lemma getLatestTokenPrices_verbatim: "set (getLatestTokenPrices timeOf data) \<subseteq> set data"
  using foldl_latest_step_verbatim [of "[]" "set data" data timeOf]
  by (simp add: getLatestTokenPrices_def)

lemma first_latest_append_other:
  "first_latest tv xs i \<Longrightarrow> currency x \<noteq> currency (xs ! i) \<Longrightarrow> first_latest tv (xs @ [x]) i"
  by (auto simp: first_latest_def nth_append less_Suc_eq)

lemma first_latest_append_not_later:
  "first_latest tv xs i \<Longrightarrow> tv x \<le> tv (xs ! i) \<Longrightarrow> first_latest tv (xs @ [x]) i"
  by (auto simp: first_latest_def nth_append less_Suc_eq)

lemma first_latest_append_new:
  "\<forall>j<length xs. currency (xs ! j) = currency x \<longrightarrow> tv (xs ! j) < tv x
     \<Longrightarrow> first_latest tv (xs @ [x]) (length xs)"
  by (auto simp: first_latest_def nth_append less_Suc_eq)

lemma map_of_latest_step:
  "map_of (latest_step timeOf m x) =
     (case map_of m (currency x) of
        None \<Rightarrow> (map_of m)(currency x \<mapsto> (price x, date x))
      | Some e \<Rightarrow>
          if date_gt (timeOf (date x)) (timeOf (snd e))
          then (map_of m)(currency x \<mapsto> (price x, date x))
          else map_of m)"
  by (simp add: latest_step_def Let_def map_get_def map_of_map_set split: option.splits)

lemma map_of_foldl_None_iff:
  "map_of (foldl (latest_step timeOf) [] xs) c = None \<longleftrightarrow> c \<notin> currency ` set xs"
proof -
  have "map fst (foldl (latest_step timeOf) [] xs) = first_occurrences (map currency xs)"
    by (simp add: keys_foldl_latest_step)
  then have "fst ` set (foldl (latest_step timeOf) [] xs) = currency ` set xs"
    by (metis list.set_map set_first_occurrences)
  then show ?thesis by (simp add: map_of_eq_None_iff)
qed

lemma foldl_latest_step_first_latest:
  assumes "\<forall>x\<in>set xs. timeOf (date x) = Some (tv x)"
    and "map_of (foldl (latest_step timeOf) [] xs) c = Some (p, d)"
  shows "\<exists>i. first_latest tv xs i \<and> xs ! i = \<lparr>currency = c, price = p, date = d\<rparr>"
  using assms
proof (induction xs arbitrary: c p d rule: rev_induct)
  case Nil
  then show ?case by simp
next
  case (snoc x xs)
  let ?m = "foldl (latest_step timeOf) [] xs"
  have valid: "\<forall>x\<in>set xs. timeOf (date x) = Some (tv x)"
    and tx: "timeOf (date x) = Some (tv x)"
    using snoc.prems(1) by simp_all
  have m': "map_of (latest_step timeOf ?m x) c = Some (p, d)"
    using snoc.prems(2) by simp
  have xrec: "x = \<lparr>currency = currency x, price = price x, date = date x\<rparr>"
    by simp
  show ?case
  proof (cases "c = currency x")
    case False
    then have "map_of ?m c = Some (p, d)"
      using m' by (simp add: map_of_latest_step split: option.splits if_splits)
    then obtain i where i: "first_latest tv xs i" "xs ! i = \<lparr>currency = c, price = p, date = d\<rparr>"
      using snoc.IH [OF valid] by blast
    then have "first_latest tv (xs @ [x]) i"
      using False by (intro first_latest_append_other) simp_all
    moreover have "(xs @ [x]) ! i = \<lparr>currency = c, price = p, date = d\<rparr>"
      using i by (simp add: first_latest_def nth_append)
    ultimately show ?thesis by blast
  next
    case True
    show ?thesis
    proof (cases "map_of ?m (currency x)")
      case None
      then have pd: "p = price x" "d = date x"
        using m' True by (simp_all add: map_of_latest_step)
      have "currency x \<notin> currency ` set xs"
        using None by (simp add: map_of_foldl_None_iff)
      then have "\<forall>j<length xs. currency (xs ! j) \<noteq> currency x"
        by (metis imageI nth_mem)
      then have "first_latest tv (xs @ [x]) (length xs)"
        by (intro first_latest_append_new) simp
      then show ?thesis using True pd by (intro exI [of _ "length xs"]) simp
    next
      case (Some e)
      obtain p0 d0 where e: "e = (p0, d0)" by (cases e)
      from Some e obtain i where i: "first_latest tv xs i"
        "xs ! i = \<lparr>currency = currency x, price = p0, date = d0\<rparr>"
        using snoc.IH [OF valid] by blast
      have ilen: "i < length xs" using i(1) by (simp add: first_latest_def)
      then have "xs ! i \<in> set xs" by simp
      then have td0: "timeOf d0 = Some (tv (xs ! i))"
        using valid i(2) by (metis CurrencyPrice.select_convs(3))
      have ci: "currency (xs ! i) = currency x" using i(2) by simp
      show ?thesis
      proof (cases "date_gt (timeOf (date x)) (timeOf (snd e))")
        case gt: True
        then have pd: "p = price x" "d = date x"
          using m' True Some by (simp_all add: map_of_latest_step)
        have lt: "tv (xs ! i) < tv x"
          using gt e tx td0 by (simp add: date_gt_def)
        have "\<forall>j<length xs. currency (xs ! j) = currency x \<longrightarrow> tv (xs ! j) < tv x"
          using i(1) ci lt by (fastforce simp: first_latest_def)
        then have "first_latest tv (xs @ [x]) (length xs)"
          by (rule first_latest_append_new)
        then show ?thesis using True pd by (intro exI [of _ "length xs"]) simp
      next
        case ngt: False
        then have pd: "p = p0" "d = d0"
          using m' True Some e by (simp_all add: map_of_latest_step)
        have "tv x \<le> tv (xs ! i)"
          using ngt e tx td0 by (simp add: date_gt_def)
        then have "first_latest tv (xs @ [x]) i"
          using i(1) by (rule first_latest_append_not_later [rotated])
        moreover have "(xs @ [x]) ! i = \<lparr>currency = c, price = p, date = d\<rparr>"
          using i(2) ilen True pd by (simp add: nth_append)
        ultimately show ?thesis by blast
      qed
    qed
  qed
qed

lemma distinct_keys_foldl: "distinct (map fst (foldl (latest_step timeOf) [] xs))"
  by (simp add: keys_foldl_latest_step distinct_first_occurrences)

text \<open>
  C3, as the code has it. The output has exactly one entry for every currency of the
  input. When every date of the input is a valid date, the entry of a currency is the
  observation with the greatest date among those of the currency, and the first of them
  in input order when several share that date: a later observation replaces the stored
  one only when its date is strictly greater.
\<close>

theorem getLatestTokenPrices_first_latest:
  "distinct (map currency (getLatestTokenPrices timeOf data))
   \<and> set (map currency (getLatestTokenPrices timeOf data)) = set (map currency data)
   \<and> ((\<forall>x\<in>set data. timeOf (date x) = Some (tv x)) \<longrightarrow>
        (\<forall>e\<in>set (getLatestTokenPrices timeOf data). \<exists>i. first_latest tv data i \<and> data ! i = e))"
proof (intro conjI impI ballI)
  show "distinct (map currency (getLatestTokenPrices timeOf data))"
    by (simp only: getLatestTokenPrices_currencies distinct_first_occurrences)
  show "set (map currency (getLatestTokenPrices timeOf data)) = set (map currency data)"
    by (simp only: getLatestTokenPrices_currencies set_first_occurrences)
next
  fix e
  assume valid: "\<forall>x\<in>set data. timeOf (date x) = Some (tv x)"
    and "e \<in> set (getLatestTokenPrices timeOf data)"
  then obtain c p d where kv: "(c, p, d) \<in> set (foldl (latest_step timeOf) [] data)"
    and e: "e = entry_of (c, p, d)"
    by (auto simp: getLatestTokenPrices_def)
  from kv have "map_of (foldl (latest_step timeOf) [] data) c = Some (p, d)"
    using distinct_keys_foldl [of timeOf data] by simp
  then obtain i where "first_latest tv data i" "data ! i = \<lparr>currency = c, price = p, date = d\<rparr>"
    using foldl_latest_step_first_latest [OF valid] by blast
  then show "\<exists>i. first_latest tv data i \<and> data ! i = e"
    using e by (auto simp: entry_of_def)
qed

lemma exampleFeed_latest:
  "getLatestTokenPrices exampleDates exampleFeed =
     [\<lparr>currency = ''BTC'', price = Fin 51000, date = ''2024-01-02''\<rparr>,
      \<lparr>currency = ''ETH'', price = Fin 3000, date = ''2024-01-01''\<rparr>]"
  by (simp add: getLatestTokenPrices_def exampleFeed_def latest_step_def map_get_def
        exampleDates_def date_gt_def entry_of_def)

theorem getLatestTokenPrices_first_latest_witness:
  "list_all (\<lambda>x. exampleDates (date x) = Some (exampleTime x)) exampleFeed
   \<and> getLatestTokenPrices exampleDates exampleFeed =
       [\<lparr>currency = ''BTC'', price = Fin 51000, date = ''2024-01-02''\<rparr>,
        \<lparr>currency = ''ETH'', price = Fin 3000, date = ''2024-01-01''\<rparr>]
   \<and> (\<exists>i. first_latest exampleTime exampleFeed i
          \<and> exampleFeed ! i = \<lparr>currency = ''BTC'', price = Fin 51000, date = ''2024-01-02''\<rparr>)
   \<and> (\<exists>i. first_latest exampleTime exampleFeed i
          \<and> exampleFeed ! i = \<lparr>currency = ''ETH'', price = Fin 3000, date = ''2024-01-01''\<rparr>)"
proof -
  have h: "\<forall>x\<in>set exampleFeed. exampleDates (date x) = Some (exampleTime x)"
    by (simp add: exampleFeed_def exampleDates_def exampleTime_def)
  with getLatestTokenPrices_first_latest [of exampleDates exampleFeed exampleTime]
  show ?thesis by (simp add: exampleFeed_latest list_all_iff)
qed

text \<open>
  Two observations of one currency with the same date: the entry stored is the first of
  them, not the last.
\<close>

theorem getLatestTokenPrices_tie_counterexample:
  "getLatestTokenPrices exampleDates
     [\<lparr>currency = ''BTC'', price = Fin 50000, date = ''2024-01-01''\<rparr>,
      \<lparr>currency = ''BTC'', price = Fin 51000, date = ''2024-01-01''\<rparr>]
   = [\<lparr>currency = ''BTC'', price = Fin 50000, date = ''2024-01-01''\<rparr>]
   \<and> getLatestTokenPrices exampleDates
     [\<lparr>currency = ''BTC'', price = Fin 50000, date = ''2024-01-01''\<rparr>,
      \<lparr>currency = ''BTC'', price = Fin 51000, date = ''2024-01-01''\<rparr>]
   \<noteq> [\<lparr>currency = ''BTC'', price = Fin 51000, date = ''2024-01-01''\<rparr>]"
  by (simp add: getLatestTokenPrices_def latest_step_def map_get_def
        exampleDates_def date_gt_def entry_of_def)

text \<open>
  C10. Every entry of the output is an observation of the input, unchanged, and the
  output lists the currencies in the order of their first occurrence in the input. The
  initial selection follows that order: the first currency is \<open>fromCurrency\<close>, the
  second one \<open>toCurrency\<close>, or the first again when there is no second.
\<close>

theorem getLatestTokenPrices_verbatim_in_order:
  "set (getLatestTokenPrices timeOf data) \<subseteq> set data
   \<and> map currency (getLatestTokenPrices timeOf data) = first_occurrences (map currency data)
   \<and> fromCurrency (fetchSucceeded timeOf data s) =
       (case first_occurrences (map currency data) of [] \<Rightarrow> fromCurrency s | c0 # _ \<Rightarrow> c0)
   \<and> toCurrency (fetchSucceeded timeOf data s) =
       (case first_occurrences (map currency data) of
          [] \<Rightarrow> toCurrency s
        | c0 # rest \<Rightarrow> (case rest of [] \<Rightarrow> c0 | c1 # _ \<Rightarrow> c1))"
proof -
  have o: "map currency (getLatestTokenPrices timeOf data) = first_occurrences (map currency data)"
    by (rule getLatestTokenPrices_currencies)
  show ?thesis
    using o getLatestTokenPrices_verbatim [of timeOf data]
    by (cases "getLatestTokenPrices timeOf data")
       (auto simp: fetchSucceeded_def Let_def split: list.splits)
qed

theorem getLatestTokenPrices_verbatim_witness:
  "set (getLatestTokenPrices exampleDates exampleFeed) \<subseteq> set exampleFeed
   \<and> map currency (getLatestTokenPrices exampleDates exampleFeed) = [''BTC'', ''ETH'']
   \<and> fromCurrency (fetchSucceeded exampleDates exampleFeed initialState) = ''BTC''
   \<and> toCurrency (fetchSucceeded exampleDates exampleFeed initialState) = ''ETH''"
  using getLatestTokenPrices_verbatim_in_order [of exampleDates exampleFeed initialState]
  by (simp add: exampleFeed_def)

section \<open>Rounding\<close>


lemma pow2_powi: "pow2 e = 2 powi e"
  by (simp add: pow2_def power_int_def inverse_eq_divide power_one_over)

lemma pow2_pos: "0 < pow2 e"
  by (simp add: pow2_powi)

lemma pow2_Suc: "pow2 (e + 1) = 2 * pow2 e"
  by (simp add: pow2_powi power_int_add)




lemma round_half_even_nearest: "\<bar>of_int (round_half_even q) - q\<bar> \<le> 1 / 2"
proof -
  have "of_int \<lfloor>q\<rfloor> \<le> q" "q < of_int \<lfloor>q\<rfloor> + 1"
    by linarith+
  then show ?thesis
    unfolding round_half_even_def Let_def by (simp split: if_splits)
qed

text \<open>
  Rounding moves a value by at most half a unit in the last place: half of
  \<open>2 ^ (e - 52)\<close> for a value of exponent \<open>e\<close>, and of \<open>2 ^ - 1074\<close> below the
  normal range.
\<close>

lemma round_mag_nearest:
  assumes "round_mag q = Some r"
  shows "\<bar>r - q\<bar> \<le> pow2 (max (floor_log2 q) (- 1022) - 52) / 2"
proof -
  let ?u = "pow2 (max (floor_log2 q) (- 1022) - 52)"
  have u: "0 < ?u" by (rule pow2_pos)
  have r: "r = of_int (round_half_even (q / ?u)) * ?u"
    using assms by (simp add: round_mag_def Let_def split: if_splits)
  have "r - q = (of_int (round_half_even (q / ?u)) - q / ?u) * ?u"
    using u by (simp add: r field_simps)
  then have "\<bar>r - q\<bar> = \<bar>of_int (round_half_even (q / ?u)) - q / ?u\<bar> * ?u"
    using u by (simp add: abs_mult)
  also have "\<dots> \<le> 1 / 2 * ?u"
    using round_half_even_nearest [of "q / ?u"] u by (intro mult_right_mono) simp_all
  finally show ?thesis by simp
qed






section \<open>Evaluating numbers\<close>

lemma bits_0: "bits 0 = 0"
  by (simp add: bits.simps)

lemma bits_1: "bits 1 = 1"
  by (simp add: bits.simps)

lemma bits_Suc_0: "bits (Suc 0) = 1"
  by (simp add: bits.simps)

lemma bits_Bit0: "bits (numeral (Num.Bit0 n)) = Suc (bits (numeral n))"
  by (subst bits.simps) (simp add: numeral_Bit0_div_2)

lemma bits_Bit1: "bits (numeral (Num.Bit1 n)) = Suc (bits (numeral n))"
  by (subst bits.simps) (simp add: numeral_Bit1_div_2)

lemma floor_numeral_div: "\<lfloor>(numeral a :: rat) / numeral b\<rfloor> = numeral a div numeral b"
  using floor_divide_of_int_eq [of "numeral a" "numeral b", where ?'a = rat] by simp

lemma ceiling_numeral_div: "\<lceil>(numeral a :: rat) / numeral b\<rceil> = - ((- numeral a) div numeral b)"
  using floor_divide_of_int_eq [of "- numeral a" "numeral b", where ?'a = rat] by (simp add: ceiling_def)

lemma digits_of_0: "digits_of 0 = []"
  by (simp add: digits_of.simps)

lemma digits_of_1: "digits_of 1 = ''1''"
  by (simp add: digits_of.simps)

lemma digits_of_Suc_0: "digits_of (Suc 0) = ''1''"
  by (simp add: digits_of.simps)

lemma digits_of_numeral:
  "digits_of (numeral n) = digits_of (numeral n div 10) @ [''0123456789'' ! (numeral n mod 10)]"
  by (subst digits_of.simps) simp

lemmas number_eval = to_number_def round_mag_def floor_log2_def pow2_def round_half_even_def Let_def
  bits_0 bits_1 bits_Suc_0 bits_Bit0 bits_Bit1 zero_of_def infinity_of_def
  floor_numeral_div ceiling_numeral_div js_mul_def js_div_def js_gt_def isNaN_def

lemmas parse_eval = parseFloat_def is_space_def literal_value_def strUnsignedDecimalLiteral_def
  is_digit_def digits_val_def digit_val_def exponentPart_def pow10_def js_neg_def

lemmas format_eval = toFixed_def numberToString_def decimal_def digits_of_0 digits_of_1
  digits_of_Suc_0 digits_of_numeral floor_numeral_div Let_def







section \<open>The conversion\<close>

lemma currencyPrices_snoc:
  "currencyPrices (cs @ [c]) = (currencyPrices cs)(currency c \<mapsto> price c)"
  by (simp add: currencyPrices_def)

lemma currencyPrices_distinct:
  "distinct (map currency cs) \<Longrightarrow> e \<in> set cs \<Longrightarrow> currencyPrices cs (currency e) = Some (price e)"
proof (induction cs rule: rev_induct)
  case Nil
  then show ?case by simp
next
  case (snoc c cs)
  show ?case
  proof (cases "e = c")
    case True
    then show ?thesis by (simp add: currencyPrices_snoc)
  next
    case False
    then have e: "e \<in> set cs" using snoc.prems by simp
    have "currency c \<notin> currency ` set cs"
      using snoc.prems(1) by simp
    moreover have "currency e \<in> currency ` set cs"
      using e by (rule imageI)
    ultimately have "currency e \<noteq> currency c" by auto
    with e snoc show ?thesis by (simp add: currencyPrices_snoc)
  qed
qed

lemma recompute_priced:
  assumes "currencyPrices (availableCurrencies s) (fromCurrency s) = Some fp"
    and "currencyPrices (availableCurrencies s) (toCurrency s) = Some tp"
  shows "exchangeRate (recompute s) = Some (js_div tp fp)"
    and "\<not> isNaN (parseFloat (fromAmount s)) \<and> js_gt (parseFloat (fromAmount s)) (Fin 0)
           \<Longrightarrow> toAmount (recompute s) = toFixed (js_mul (parseFloat (fromAmount s)) (js_div tp fp)) 6
                \<and> error (recompute s) = []"
    and "\<not> (\<not> isNaN (parseFloat (fromAmount s)) \<and> js_gt (parseFloat (fromAmount s)) (Fin 0))
           \<Longrightarrow> toAmount (recompute s) = []
                \<and> error (recompute s) = ''Please enter a valid amount to send.''"
  using assms by (simp_all add: recompute_def Let_def)


lemma isFinite_not_NaN: "isFinite a \<Longrightarrow> \<not> isNaN a"
  by (cases a) (simp_all add: isNaN_def)

text \<open>
  C1. When both selected currencies are entries of the price index and the amount parses
  to a finite number greater than zero, the effect yields a conversion: no error message,
  the rate \<open>price(to) / price(from)\<close>, and as \<open>toAmount\<close> the product of the parsed
  amount and that rate, printed with six fraction digits. The quotient and the product
  are those of JavaScript numbers.
\<close>

theorem recompute_converted:
  assumes "distinct (map currency (availableCurrencies s))"
    and "ef \<in> set (availableCurrencies s)" and "fromCurrency s = currency ef"
    and "et \<in> set (availableCurrencies s)" and "toCurrency s = currency et"
    and "parseFloat (fromAmount s) = a" and "isFinite a" and "js_gt a (Fin 0)"
  shows "exchangeRate (recompute s) = Some (js_div (price et) (price ef))
         \<and> toAmount (recompute s) = toFixed (js_mul a (js_div (price et) (price ef))) 6
         \<and> error (recompute s) = []"
proof -
  have f: "currencyPrices (availableCurrencies s) (fromCurrency s) = Some (price ef)"
    using assms(1-3) by (simp add: currencyPrices_distinct)
  have t: "currencyPrices (availableCurrencies s) (toCurrency s) = Some (price et)"
    using assms(1,4,5) by (simp add: currencyPrices_distinct)
  have "\<not> isNaN (parseFloat (fromAmount s)) \<and> js_gt (parseFloat (fromAmount s)) (Fin 0)"
    using assms(6-8) by (simp add: isFinite_not_NaN)
  then show ?thesis
    using recompute_priced(1,2) [OF f t] assms(6) by simp
qed


lemma exampleIndex_prices:
  "currencyPrices
     [\<lparr>currency = ''BTC'', price = Fin 51000, date = ''2024-01-02''\<rparr>,
      \<lparr>currency = ''ETH'', price = Fin 3000, date = ''2024-01-01''\<rparr>] ''BTC'' = Some (Fin 51000)"
  "currencyPrices
     [\<lparr>currency = ''BTC'', price = Fin 51000, date = ''2024-01-02''\<rparr>,
      \<lparr>currency = ''ETH'', price = Fin 3000, date = ''2024-01-01''\<rparr>] ''ETH'' = Some (Fin 3000)"
  by (simp_all add: currencyPrices_def)

lemma parseFloat_examples:
  "parseFloat ''2'' = Fin 2" "parseFloat ''5'' = Fin 5" "parseFloat ''12.5'' = Fin (25 / 2)"
  "parseFloat ''1.0'' = Fin 1" "parseFloat [] = NaN"
  by (simp_all add: parse_eval number_eval)

theorem recompute_converted_witness:
  "exchangeRate (recompute (initialState
      \<lparr>availableCurrencies := getLatestTokenPrices exampleDates exampleFeed,
       fromCurrency := ''ETH'', toCurrency := ''BTC'', fromAmount := ''12.5''\<rparr>)) = Some (Fin 17)
   \<and> toAmount (recompute (initialState
      \<lparr>availableCurrencies := getLatestTokenPrices exampleDates exampleFeed,
       fromCurrency := ''ETH'', toCurrency := ''BTC'', fromAmount := ''12.5''\<rparr>)) = ''212.500000''
   \<and> error (recompute (initialState
      \<lparr>availableCurrencies := getLatestTokenPrices exampleDates exampleFeed,
       fromCurrency := ''ETH'', toCurrency := ''BTC'', fromAmount := ''12.5''\<rparr>)) = []"
proof -
  let ?s = "initialState
      \<lparr>availableCurrencies := getLatestTokenPrices exampleDates exampleFeed,
       fromCurrency := ''ETH'', toCurrency := ''BTC'', fromAmount := ''12.5''\<rparr>"
  let ?btc = "\<lparr>currency = ''BTC'', price = Fin 51000, date = ''2024-01-02''\<rparr>"
  let ?eth = "\<lparr>currency = ''ETH'', price = Fin 3000, date = ''2024-01-01''\<rparr>"
  have rate: "js_div (Fin 51000) (Fin 3000) = Fin 17"
    by (simp add: number_eval)
  have out: "js_mul (Fin (25 / 2)) (Fin 17) = Fin (425 / 2)"
    by (simp add: number_eval)
  have shown: "toFixed (Fin (425 / 2)) 6 = ''212.500000''"
    by (simp add: format_eval)
  have "exchangeRate (recompute ?s) = Some (js_div (price ?btc) (price ?eth))
         \<and> toAmount (recompute ?s) = toFixed (js_mul (Fin (25 / 2)) (js_div (price ?btc) (price ?eth))) 6
         \<and> error (recompute ?s) = []"
    by (rule recompute_converted [of ?s ?eth ?btc "Fin (25 / 2)"])
       (simp_all add: exampleFeed_latest parseFloat_examples js_gt_def)
  then show ?thesis by (simp add: rate out shown)
qed

lemma exampleState_fields:
  "availableCurrencies exampleState = getLatestTokenPrices exampleDates exampleFeed"
  "fromCurrency exampleState = ''BTC''" "toCurrency exampleState = ''ETH''"
  "fromAmount exampleState = ''2''" "loading exampleState = False"
  by (simp_all add: exampleState_def step_def recompute_keeps fetchSucceeded_def
        handleFromAmountChange_def amount_pattern_test_def is_digit_def exampleFeed_latest)

lemma recompute_idem_fields:
  "exchangeRate (recompute (recompute s)) = exchangeRate (recompute s)"
  "toAmount (recompute (recompute s)) = toAmount (recompute s)"
  "error (recompute (recompute s)) = error (recompute s)"
  by (simp_all add: recompute_def Let_def split: option.splits)

text \<open>
  C2, as the code has it. With 1 January 2024 before 2 January 2024, the feed of the
  example is reduced to \<open>BTC: 51000\<close>, \<open>ETH: 3000\<close>. Converting \<open>2\<close> from \<open>BTC\<close> to
  \<open>ETH\<close> gives the rate \<open>3000 / 51000\<close>, which is the number
  \<open>0.058823529411764705\<close>, and the amount \<open>0.117647\<close>.
\<close>

theorem exampleFeed_conversion:
  assumes "timeOf ''2024-01-01'' = Some t1" and "timeOf ''2024-01-02'' = Some t2" and "t1 < t2"
    and "availableCurrencies s = getLatestTokenPrices timeOf exampleFeed"
    and "fromCurrency s = ''BTC''" and "toCurrency s = ''ETH''" and "fromAmount s = ''2''"
  shows "getLatestTokenPrices timeOf exampleFeed =
           [\<lparr>currency = ''BTC'', price = Fin 51000, date = ''2024-01-02''\<rparr>,
            \<lparr>currency = ''ETH'', price = Fin 3000, date = ''2024-01-01''\<rparr>]
         \<and> exchangeRate (recompute s) = Some (Fin (4238682002231055 / 72057594037927936))
         \<and> toAmount (recompute s) = ''0.117647''
         \<and> error (recompute s) = []"
proof -
  have idx: "getLatestTokenPrices timeOf exampleFeed =
           [\<lparr>currency = ''BTC'', price = Fin 51000, date = ''2024-01-02''\<rparr>,
            \<lparr>currency = ''ETH'', price = Fin 3000, date = ''2024-01-01''\<rparr>]"
    using assms(1-3)
    by (simp add: getLatestTokenPrices_def exampleFeed_def latest_step_def map_get_def
          date_gt_def entry_of_def)
  have f: "currencyPrices (availableCurrencies s) (fromCurrency s) = Some (Fin 51000)"
    and t: "currencyPrices (availableCurrencies s) (toCurrency s) = Some (Fin 3000)"
    using assms(4-6) by (simp_all add: idx exampleIndex_prices)
  have rate: "js_div (Fin 3000) (Fin 51000) = Fin (4238682002231055 / 72057594037927936)"
    by (simp add: number_eval)
  have out: "js_mul (Fin 2) (Fin (4238682002231055 / 72057594037927936))
               = Fin (4238682002231055 / 36028797018963968)"
    by (simp add: number_eval)
  have shown: "toFixed (Fin (4238682002231055 / 36028797018963968)) 6 = ''0.117647''"
    by (simp add: format_eval)
  have ok: "\<not> isNaN (parseFloat (fromAmount s)) \<and> js_gt (parseFloat (fromAmount s)) (Fin 0)"
    using assms(7) by (simp add: parseFloat_examples isNaN_def js_gt_def)
  show ?thesis
    using idx recompute_priced(1) [OF f t] recompute_priced(2) [OF f t ok] assms(7)
    by (simp add: rate out shown parseFloat_examples)
qed

theorem exampleFeed_conversion_witness:
  "exampleDates ''2024-01-01'' = Some 1704067200000
   \<and> exampleDates ''2024-01-02'' = Some 1704153600000
   \<and> fromCurrency exampleState = ''BTC'' \<and> toCurrency exampleState = ''ETH''
   \<and> fromAmount exampleState = ''2''
   \<and> exchangeRate exampleState = Some (Fin (4238682002231055 / 72057594037927936))
   \<and> toAmount exampleState = ''0.117647''
   \<and> error exampleState = []"
proof -
  have d: "exampleDates ''2024-01-01'' = Some 1704067200000"
    "exampleDates ''2024-01-02'' = Some 1704153600000"
    by (simp_all add: exampleDates_def)
  have r: "exchangeRate (recompute exampleState) = exchangeRate exampleState"
    "toAmount (recompute exampleState) = toAmount exampleState"
    "error (recompute exampleState) = error exampleState"
    by (simp_all add: exampleState_def step_def recompute_idem_fields)
  show ?thesis
    using exampleFeed_conversion [OF d _ exampleState_fields(1-4)] d r
    by (simp add: exampleState_fields)
qed

text \<open>In the state of the example the rate is not 17 and the amount shown is not 34.\<close>

theorem exampleFeed_rate_counterexample:
  "fromCurrency exampleState = ''BTC'' \<and> toCurrency exampleState = ''ETH''
   \<and> fromAmount exampleState = ''2''
   \<and> exchangeRate exampleState \<noteq> Some (Fin 17)
   \<and> toAmount exampleState \<noteq> ''34.000000''"
proof -
  have d: "exampleDates ''2024-01-01'' = Some 1704067200000"
    "exampleDates ''2024-01-02'' = Some 1704153600000"
    by (simp_all add: exampleDates_def)
  have r: "exchangeRate (recompute exampleState) = exchangeRate exampleState"
    "toAmount (recompute exampleState) = toAmount exampleState"
    by (simp_all add: exampleState_def step_def recompute_idem_fields)
  have "exchangeRate (recompute exampleState) = Some (Fin (4238682002231055 / 72057594037927936))
        \<and> toAmount (recompute exampleState) = ''0.117647''"
    using recompute_priced(1,2) [of exampleState "Fin 51000" "Fin 3000"]
    by (simp add: exampleState_fields exampleFeed_latest exampleIndex_prices parseFloat_examples
          number_eval format_eval)
  then show ?thesis by (simp add: r exampleState_fields)
qed






lemma js_div_by_zero: "is_zero fp \<Longrightarrow> \<not> isFinite (js_div tp fp)"
  by (cases fp; cases tp) (simp_all add: js_div_def infinity_of_def)

lemma js_div_of_zero:
  "is_zero tp \<Longrightarrow> isFinite fp \<Longrightarrow> \<not> is_zero fp \<Longrightarrow> is_zero (js_div tp fp)"
  by (cases fp; cases tp) (simp_all add: js_div_def zero_of_def)

text \<open>
  C5, as the code has it. A price of zero does not make the effect fail: with both
  prices known and a valid amount there is no error message and the rate is the quotient
  of the two prices. That quotient is not finite (an infinity or \<open>NaN\<close>) when the price
  of the from-currency is zero, and it is zero when only the price of the to-currency is.
\<close>

theorem recompute_zero_price:
  assumes "currencyPrices (availableCurrencies s) (fromCurrency s) = Some fp"
    and "currencyPrices (availableCurrencies s) (toCurrency s) = Some tp"
    and "\<not> isNaN (parseFloat (fromAmount s))" and "js_gt (parseFloat (fromAmount s)) (Fin 0)"
  shows "error (recompute s) = []
         \<and> exchangeRate (recompute s) = Some (js_div tp fp)
         \<and> toAmount (recompute s) = toFixed (js_mul (parseFloat (fromAmount s)) (js_div tp fp)) 6
         \<and> (is_zero fp \<longrightarrow> \<not> isFinite (js_div tp fp))
         \<and> (is_zero tp \<and> isFinite fp \<and> \<not> is_zero fp \<longrightarrow> is_zero (js_div tp fp))"
  using recompute_priced(1,2) [OF assms(1,2)] assms(3,4) js_div_by_zero [of fp tp]
    js_div_of_zero [of tp fp]
  by simp

lemma zeroPriceState_fields:
  "availableCurrencies zeroPriceState = zeroPriceFeed"
  "fromCurrency zeroPriceState = ''X''" "toCurrency zeroPriceState = ''Y''"
  "fromAmount zeroPriceState = ''1.0''"
  by (simp_all add: zeroPriceState_def step_def recompute_keeps fetchSucceeded_def
        getLatestTokenPrices_def zeroPriceFeed_def latest_step_def map_get_def entry_of_def
        initialState_def)

lemma step_again:
  "exchangeRate (recompute (step timeOf e s)) = exchangeRate (step timeOf e s)"
  "toAmount (recompute (step timeOf e s)) = toAmount (step timeOf e s)"
  "error (recompute (step timeOf e s)) = error (step timeOf e s)"
  by (simp_all add: step_def recompute_idem_fields)

lemma zeroPriceFeed_prices:
  "currencyPrices zeroPriceFeed ''X'' = Some (Fin 0)"
  "currencyPrices zeroPriceFeed ''Y'' = Some (Fin 3000)"
  by (simp_all add: currencyPrices_def zeroPriceFeed_def)

theorem recompute_zero_price_witness:
  "currencyPrices (availableCurrencies zeroPriceState) (fromCurrency zeroPriceState) = Some (Fin 0)
   \<and> is_zero (Fin 0)
   \<and> js_gt (parseFloat (fromAmount zeroPriceState)) (Fin 0)
   \<and> error (recompute zeroPriceState) = []
   \<and> exchangeRate (recompute zeroPriceState) = Some PosInfinity
   \<and> \<not> isFinite PosInfinity
   \<and> exchangeRate (recompute (handleCurrencySwap zeroPriceState)) = Some (Fin 0)
   \<and> error (recompute (handleCurrencySwap zeroPriceState)) = []"
proof -
  have a: "js_div (Fin 3000) (Fin 0) = PosInfinity" "js_div (Fin 0) (Fin 3000) = Fin 0"
    by (simp_all add: number_eval)
  have ok: "\<not> isNaN (parseFloat (fromAmount zeroPriceState))"
    "js_gt (parseFloat (fromAmount zeroPriceState)) (Fin 0)"
    by (simp_all add: zeroPriceState_fields parseFloat_examples isNaN_def js_gt_def)
  have f: "currencyPrices (availableCurrencies zeroPriceState) (fromCurrency zeroPriceState)
             = Some (Fin 0)"
    and t: "currencyPrices (availableCurrencies zeroPriceState) (toCurrency zeroPriceState)
             = Some (Fin 3000)"
    by (simp_all add: zeroPriceState_fields zeroPriceFeed_prices)
  have f': "currencyPrices (availableCurrencies (handleCurrencySwap zeroPriceState))
               (fromCurrency (handleCurrencySwap zeroPriceState)) = Some (Fin 3000)"
    and t': "currencyPrices (availableCurrencies (handleCurrencySwap zeroPriceState))
               (toCurrency (handleCurrencySwap zeroPriceState)) = Some (Fin 0)"
    and ok': "\<not> isNaN (parseFloat (fromAmount (handleCurrencySwap zeroPriceState)))"
      "js_gt (parseFloat (fromAmount (handleCurrencySwap zeroPriceState))) (Fin 0)"
    by (simp_all add: handleCurrencySwap_def zeroPriceState_fields zeroPriceFeed_prices
          parseFloat_examples isNaN_def js_gt_def)
  show ?thesis
    using recompute_zero_price [OF f t ok] recompute_zero_price [OF f' t' ok'] f ok
    by (simp add: a)
qed

text \<open>
  From a currency of price zero the conversion succeeds with an infinite rate and the
  amount \<open>Infinity\<close>.
\<close>

theorem recompute_zero_price_counterexample:
  "currencyPrices (availableCurrencies zeroPriceState) (fromCurrency zeroPriceState) = Some (Fin 0)
   \<and> exchangeRate zeroPriceState = Some PosInfinity
   \<and> toAmount zeroPriceState = ''Infinity''
   \<and> error zeroPriceState = []"
proof -
  have "exchangeRate (recompute zeroPriceState) = Some PosInfinity
        \<and> toAmount (recompute zeroPriceState) = ''Infinity''
        \<and> error (recompute zeroPriceState) = []"
    using recompute_priced(1,2) [of zeroPriceState "Fin 0" "Fin 3000"]
    by (simp add: zeroPriceState_fields zeroPriceFeed_prices parseFloat_examples number_eval
          format_eval)
  then show ?thesis
    by (simp add: zeroPriceState_def step_again)
       (simp add: zeroPriceState_def [symmetric] zeroPriceState_fields zeroPriceFeed_prices)
qed

lemma js_div_self: "isFinite p \<Longrightarrow> \<not> is_zero p \<Longrightarrow> js_div p p = Fin 1"
  by (cases p) (simp_all add: number_eval)

text \<open>
  C6, as the code has it. Converting \<open>5\<close> from a currency to itself gives the rate 1
  and the amount 5 exactly, whenever the stored price is finite and not zero: the rate
  is obtained by division, and a finite number other than zero divided by itself is 1.
\<close>

theorem recompute_same_currency:
  assumes "currencyPrices (availableCurrencies s) x = Some p"
    and "isFinite p" and "\<not> is_zero p"
    and "fromCurrency s = x" and "toCurrency s = x" and "fromAmount s = ''5''"
  shows "exchangeRate (recompute s) = Some (Fin 1)
         \<and> js_mul (parseFloat (fromAmount s)) (Fin 1) = Fin 5
         \<and> toAmount (recompute s) = ''5.000000''
         \<and> error (recompute s) = []"
proof -
  have f: "currencyPrices (availableCurrencies s) (fromCurrency s) = Some p"
    and t: "currencyPrices (availableCurrencies s) (toCurrency s) = Some p"
    using assms(1,4,5) by simp_all
  have ok: "\<not> isNaN (parseFloat (fromAmount s)) \<and> js_gt (parseFloat (fromAmount s)) (Fin 0)"
    using assms(6) by (simp add: parseFloat_examples isNaN_def js_gt_def)
  have out: "js_mul (Fin 5) (Fin 1) = Fin 5"
    by (simp add: number_eval)
  have shown: "toFixed (Fin 5) 6 = ''5.000000''"
    by (simp add: format_eval)
  show ?thesis
    using recompute_priced(1) [OF f t] recompute_priced(2) [OF f t ok] assms(2,3,6)
    by (simp add: js_div_self parseFloat_examples out shown)
qed

theorem recompute_same_currency_witness:
  "currencyPrices
      (availableCurrencies (handleFromAmountChange ''5'' (step exampleDates (SelectTo ''BTC'') exampleState)))
      ''BTC'' = Some (Fin 51000)
   \<and> exchangeRate
        (step exampleDates (AmountChange ''5'') (step exampleDates (SelectTo ''BTC'') exampleState))
       = Some (Fin 1)
   \<and> toAmount
        (step exampleDates (AmountChange ''5'') (step exampleDates (SelectTo ''BTC'') exampleState))
       = ''5.000000''
   \<and> error
        (step exampleDates (AmountChange ''5'') (step exampleDates (SelectTo ''BTC'') exampleState))
       = []"
proof -
  let ?s = "handleFromAmountChange ''5'' (step exampleDates (SelectTo ''BTC'') exampleState)"
  have fields: "availableCurrencies ?s = getLatestTokenPrices exampleDates exampleFeed"
    "fromCurrency ?s = ''BTC''" "toCurrency ?s = ''BTC''" "fromAmount ?s = ''5''"
    by (simp_all add: handleFromAmountChange_def amount_pattern_test_def is_digit_def step_def
          recompute_keeps exampleState_fields)
  have p: "currencyPrices (availableCurrencies ?s) ''BTC'' = Some (Fin 51000)"
    by (simp add: fields exampleFeed_latest exampleIndex_prices)
  show ?thesis
    using recompute_same_currency [OF p _ _ fields(2-4)] p
    by (simp add: step_def)
qed

text \<open>With a stored price of zero the rate of a currency to itself is \<open>NaN\<close>, not 1.\<close>

theorem recompute_same_currency_counterexample:
  "currencyPrices
      (availableCurrencies (step exampleDates (AmountChange ''5'') (step exampleDates (SelectTo ''X'') zeroPriceState)))
      ''X'' = Some (Fin 0)
   \<and> fromCurrency (step exampleDates (AmountChange ''5'') (step exampleDates (SelectTo ''X'') zeroPriceState)) = ''X''
   \<and> toCurrency (step exampleDates (AmountChange ''5'') (step exampleDates (SelectTo ''X'') zeroPriceState)) = ''X''
   \<and> fromAmount (step exampleDates (AmountChange ''5'') (step exampleDates (SelectTo ''X'') zeroPriceState)) = ''5''
   \<and> exchangeRate (step exampleDates (AmountChange ''5'') (step exampleDates (SelectTo ''X'') zeroPriceState))
       = Some NaN
   \<and> toAmount (step exampleDates (AmountChange ''5'') (step exampleDates (SelectTo ''X'') zeroPriceState))
       = ''NaN''"
proof -
  let ?s = "handleFromAmountChange ''5'' (step exampleDates (SelectTo ''X'') zeroPriceState)"
  have fields: "availableCurrencies ?s = zeroPriceFeed"
    "fromCurrency ?s = ''X''" "toCurrency ?s = ''X''" "fromAmount ?s = ''5''"
    by (simp_all add: handleFromAmountChange_def amount_pattern_test_def is_digit_def step_def
          recompute_keeps zeroPriceState_fields)
  have "exchangeRate (recompute ?s) = Some NaN \<and> toAmount (recompute ?s) = ''NaN''"
    using recompute_priced(1,2) [of ?s "Fin 0" "Fin 0"]
    by (simp add: fields zeroPriceFeed_prices parseFloat_examples number_eval format_eval)
  then show ?thesis
    using fields by (simp add: step_def recompute_keeps zeroPriceFeed_prices)
qed

end
